theory Spec2Isabelle
  imports Complex_Main
begin

section \<open>SQL values and operators\<close>

text \<open>
  The program is the PL/pgSQL part of the PostgreSQL schema: the functions
  \<^verbatim>\<open>calculate_lead_score\<close>, \<^verbatim>\<open>update_prospect_stage_on_analysis\<close>,
  \<^verbatim>\<open>calculate_engagement_score\<close>, \<^verbatim>\<open>get_optimal_campaign_assignment\<close>,
  \<^verbatim>\<open>analyze_reply_basic\<close> and \<^verbatim>\<open>update_engagement_on_activity\<close>, with the tables they
  read and write.

  A nullable SQL value is an \<open>option\<close>, \<open>None\<close> being NULL. \<open>INTEGER\<close> and \<open>BIGINT\<close> are
  \<open>int\<close>, with the 32-bit range of an \<open>INTEGER\<close> checked where the counters of an
  integration enter a product, a sum or a cast (the lead score adds four bounded
  components and cannot leave the range). \<open>DECIMAL\<close> is \<open>rat\<close>, \<open>TEXT\<close> and \<open>VARCHAR\<close> are
  \<open>string\<close>, a \<open>TIMESTAMPTZ\<close> is its number of microseconds since the epoch, a \<open>UUID\<close> is
  a natural number.

  Comparisons and the connectives \<open>AND\<close>, \<open>OR\<close> are three-valued; \<open>IF\<close>, \<open>WHEN\<close> and \<open>WHERE\<close>
  take a row or a branch when the condition is true, not when it is false or NULL.
\<close>

definition is_true :: "bool option \<Rightarrow> bool" where
  "is_true b = (b = Some True)"

definition sql_or :: "bool option \<Rightarrow> bool option \<Rightarrow> bool option" where
  "sql_or a b =
     (if a = Some True \<or> b = Some True then Some True
      else if a = Some False \<and> b = Some False then Some False
      else None)"

definition sql_and :: "bool option \<Rightarrow> bool option \<Rightarrow> bool option" where
  "sql_and a b =
     (if a = Some False \<or> b = Some False then Some False
      else if a = Some True \<and> b = Some True then Some True
      else None)"

definition sql_lift2 :: "('a \<Rightarrow> 'b \<Rightarrow> 'c) \<Rightarrow> 'a option \<Rightarrow> 'b option \<Rightarrow> 'c option" where
  "sql_lift2 f a b =
     (case a of None \<Rightarrow> None
      | Some x \<Rightarrow> (case b of None \<Rightarrow> None | Some y \<Rightarrow> Some (f x y)))"

definition sql_eq :: "'a option \<Rightarrow> 'a option \<Rightarrow> bool option" where
  "sql_eq = sql_lift2 (\<lambda>x y. x = y)"

definition sql_gt :: "'a::linorder option \<Rightarrow> 'a option \<Rightarrow> bool option" where
  "sql_gt = sql_lift2 (\<lambda>x y. y < x)"

definition sql_ge :: "'a::linorder option \<Rightarrow> 'a option \<Rightarrow> bool option" where
  "sql_ge = sql_lift2 (\<lambda>x y. y \<le> x)"

definition sql_le :: "'a::linorder option \<Rightarrow> 'a option \<Rightarrow> bool option" where
  "sql_le = sql_lift2 (\<lambda>x y. x \<le> y)"

definition sql_add :: "'a::plus option \<Rightarrow> 'a option \<Rightarrow> 'a option" where
  "sql_add = sql_lift2 (\<lambda>x y. x + y)"

definition sql_sub :: "'a::minus option \<Rightarrow> 'a option \<Rightarrow> 'a option" where
  "sql_sub = sql_lift2 (\<lambda>x y. x - y)"

definition sql_mul :: "'a::times option \<Rightarrow> 'a option \<Rightarrow> 'a option" where
  "sql_mul = sql_lift2 (\<lambda>x y. x * y)"

definition sql_div :: "rat option \<Rightarrow> rat option \<Rightarrow> rat option" where
  "sql_div = sql_lift2 (\<lambda>x y. x / y)"

definition coalesce :: "'a option \<Rightarrow> 'a \<Rightarrow> 'a" where
  "coalesce a d = (case a of None \<Rightarrow> d | Some x \<Rightarrow> x)"

text \<open>
  \<^verbatim>\<open>x IN (v1, ..., vn)\<close> for values that are not NULL: NULL when \<open>x\<close> is.
\<close>

definition sql_in :: "'a option \<Rightarrow> 'a list \<Rightarrow> bool option" where
  "sql_in a vs = (case a of None \<Rightarrow> None | Some x \<Rightarrow> Some (x \<in> set vs))"

text \<open>
  \<^verbatim>\<open>LEAST\<close> and \<^verbatim>\<open>GREATEST\<close> of PostgreSQL skip the arguments that are NULL and are NULL
  only when every argument is.
\<close>

definition sql_least :: "'a::linorder option \<Rightarrow> 'a option \<Rightarrow> 'a option" where
  "sql_least a b =
     (case a of None \<Rightarrow> b
      | Some x \<Rightarrow> (case b of None \<Rightarrow> Some x | Some y \<Rightarrow> Some (min x y)))"

definition sql_greatest :: "'a::linorder option \<Rightarrow> 'a option \<Rightarrow> 'a option" where
  "sql_greatest a b =
     (case a of None \<Rightarrow> b
      | Some x \<Rightarrow> (case b of None \<Rightarrow> Some x | Some y \<Rightarrow> Some (max x y)))"

text \<open>
  The cast of a \<open>DECIMAL\<close> to \<open>INTEGER\<close> (explicit with \<^verbatim>\<open>::INTEGER\<close>, implicit in
  \<^verbatim>\<open>SELECT ... INTO\<close> an integer variable) and \<^verbatim>\<open>ROUND\<close> take the nearest integer, a tie
  away from zero. Sums and products of \<open>DECIMAL\<close> values are exact.
\<close>

definition sql_round :: "rat \<Rightarrow> int" where
  "sql_round x = (if 0 \<le> x then \<lfloor>x + 1 / 2\<rfloor> else - \<lfloor>- x + 1 / 2\<rfloor>)"

definition to_decimal :: "int option \<Rightarrow> rat option" where
  "to_decimal = map_option of_int"

definition to_integer :: "rat option \<Rightarrow> int option" where
  "to_integer = map_option sql_round"

section \<open>Errors\<close>

text \<open>
  A statement that raises ends the function, the trigger that called it and the
  statement that fired the trigger: the result is the error, and the database stays as
  it was. Two errors can arise in this program: the assignment to a field of a \<open>RECORD\<close>
  variable that has not been assigned, and an \<open>INTEGER\<close> result outside 32 bits.
\<close>

datatype error = record_not_assigned string | integer_out_of_range

definition and_then :: "error + 'a \<Rightarrow> ('a \<Rightarrow> error + 'b) \<Rightarrow> error + 'b" where
  "and_then r f = (case r of Inl e \<Rightarrow> Inl e | Inr x \<Rightarrow> f x)"

definition int4 :: "int option \<Rightarrow> error + int option" where
  "int4 a =
     (case a of
        None \<Rightarrow> Inr None
      | Some i \<Rightarrow>
          if - 2147483648 \<le> i \<and> i \<le> 2147483647 then Inr (Some i)
          else Inl integer_out_of_range)"

section \<open>Text\<close>

text \<open>
  \<^verbatim>\<open>LOWER\<close> and \<^verbatim>\<open>ILIKE\<close> fold the letters A to Z here. PostgreSQL folds by the locale of
  the database, which can fold characters outside ASCII as well; the texts that are
  evaluated below are ASCII.
\<close>

definition lower_char :: "char \<Rightarrow> char" where
  "lower_char c =
     (case map_of (zip ''ABCDEFGHIJKLMNOPQRSTUVWXYZ'' ''abcdefghijklmnopqrstuvwxyz'') c of
        None \<Rightarrow> c
      | Some d \<Rightarrow> d)"

definition lower :: "string \<Rightarrow> string" where
  "lower s = map lower_char s"

fun starts_with :: "string \<Rightarrow> string \<Rightarrow> bool" where
  "starts_with s [] = True"
| "starts_with [] (k # ks) = False"
| "starts_with (c # cs) (k # ks) = (c = k \<and> starts_with cs ks)"

fun contains :: "string \<Rightarrow> string \<Rightarrow> bool" where
  "contains [] k = (k = [])"
| "contains (c # cs) k = (starts_with (c # cs) k \<or> contains cs k)"

text \<open>
  \<^verbatim>\<open>s ~ p\<close>, the POSIX regular expression match, for the patterns of this program:
  words of letters and blanks, joined by \<^verbatim>\<open>|\<close> in one place. Such a pattern matches
  when one of its alternatives occurs somewhere in \<open>s\<close>.
\<close>

fun alternatives :: "string \<Rightarrow> string list" where
  "alternatives [] = [[]]"
| "alternatives (c # cs) =
     (if c = CHR ''|'' then [] # alternatives cs
      else (case alternatives cs of [] \<Rightarrow> [[c]] | a # as \<Rightarrow> (c # a) # as))"

definition regex_match :: "string \<Rightarrow> string \<Rightarrow> bool" where
  "regex_match s p = list_ex (contains s) (alternatives p)"

definition regex_match_any :: "string \<Rightarrow> string list \<Rightarrow> bool" where
  "regex_match_any s ps = list_ex (regex_match s) ps"

text \<open>
  \<^verbatim>\<open>s LIKE p\<close>: \<^verbatim>\<open>%\<close> stands for any run of characters, \<^verbatim>\<open>_\<close> for one character (the
  patterns of this program have no escape character). \<^verbatim>\<open>ILIKE\<close> ignores case.
\<close>

fun like :: "string \<Rightarrow> string \<Rightarrow> bool" where
  "like [] [] = True"
| "like [] (p # ps) = (p = CHR ''%'' \<and> like [] ps)"
| "like (c # cs) [] = False"
| "like (c # cs) (p # ps) =
     (if p = CHR ''%'' then like (c # cs) ps \<or> like cs (p # ps)
      else (p = CHR ''_'' \<or> p = c) \<and> like cs ps)"

definition ilike_any :: "string option \<Rightarrow> string list \<Rightarrow> bool option" where
  "ilike_any a ps =
     (case a of None \<Rightarrow> None
      | Some s \<Rightarrow> Some (list_ex (\<lambda>p. like (lower s) (lower p)) ps))"

text \<open>
  \<^verbatim>\<open>format('%s', x)\<close> writes an integer in decimal and NULL as the empty string.
\<close>

fun digits :: "nat \<Rightarrow> string" where
  "digits n =
     (if n < 10 then [''0123456789'' ! n]
      else digits (n div 10) @ [''0123456789'' ! (n mod 10)])"

definition format_s :: "int option \<Rightarrow> string" where
  "format_s a =
     (case a of None \<Rightarrow> []
      | Some i \<Rightarrow> (if i < 0 then CHR ''-'' # digits (nat (- i)) else digits (nat i)))"

section \<open>Reply classification\<close>

record reply_analysis =
  sentiment :: string
  intent :: string
  confidence :: string
  requires_human_review :: bool

definition v_keywords_positive :: "string list" where
  "v_keywords_positive =
     [''interested'', ''yes'', ''sounds good'', ''tell me more'', ''schedule'', ''call'',
      ''meeting'', ''demo'', ''pricing'', ''learn more'']"

definition v_keywords_negative :: "string list" where
  "v_keywords_negative =
     [''not interested'', ''no'', ''remove'', ''unsubscribe'', ''stop'', ''spam'',
      ''delete'', ''busy'', ''no thanks'']"

definition v_keywords_meeting :: "string list" where
  "v_keywords_meeting = [''meeting'', ''call'', ''demo'', ''schedule'', ''chat'', ''discuss'']"

definition v_keywords_pricing :: "string list" where
  "v_keywords_pricing = [''price'', ''cost'', ''pricing'', ''budget'', ''quote'', ''proposal'']"

definition v_content_lower :: "string option \<Rightarrow> string" where
  "v_content_lower p_reply_content = lower (coalesce p_reply_content [])"

definition analyze_reply_basic :: "string option \<Rightarrow> reply_analysis" where
  "analyze_reply_basic p_reply_content =
     (let content = v_content_lower p_reply_content;
          v_sentiment =
            (if regex_match_any content v_keywords_positive then ''positive''
             else if regex_match_any content v_keywords_negative then ''negative''
             else ''neutral'');
          v_intent =
            (if regex_match_any content v_keywords_meeting then ''meeting_request''
             else if regex_match_any content v_keywords_pricing then ''pricing_inquiry''
             else if regex_match content ''remove|unsubscribe'' then ''unsubscribe_request''
             else if v_sentiment = ''positive'' then ''interested''
             else if v_sentiment = ''negative'' then ''not_interested''
             else ''general_inquiry'')
      in \<lparr>sentiment = v_sentiment,
          intent = v_intent,
          confidence =
            (if regex_match_any content (v_keywords_positive @ v_keywords_negative)
             then ''high'' else ''medium''),
          requires_human_review =
            (v_sentiment \<in> set [''positive'', ''interested''] \<or> v_intent = ''meeting_request'')\<rparr>)"

section \<open>Campaign assignment\<close>

record campaign_assignment =
  campaign_id :: string
  sequence_id :: string
  delay_hours :: rat
  priority :: string
  assignment_reason :: string

definition get_optimal_campaign_assignment ::
  "int option \<Rightarrow> rat option \<Rightarrow> string option \<Rightarrow> string option \<Rightarrow> int option
     \<Rightarrow> campaign_assignment" where
  "get_optimal_campaign_assignment p_lead_score p_roi_potential p_industry p_company_size
       p_opportunities_count =
     (let (v_campaign_id, v_sequence_id, v_delay_hours, v_priority) =
            (if is_true (sql_or (sql_ge p_lead_score (Some 80))
                                (sql_gt p_roi_potential (Some 50000)))
             then (''entelech_enterprise_vip'', ''seq_enterprise_executive'', 1 / 2, ''high'')
             else if is_true (sql_or (sql_ge p_lead_score (Some 60))
                                (sql_and (sql_gt p_roi_potential (Some 25000))
                                         (sql_ge p_opportunities_count (Some 2))))
             then (''entelech_professional_priority'', ''seq_professional_priority'', 1,
                   ''medium'')
             else if is_true (sql_or (sql_ge p_lead_score (Some 40))
                                (sql_ge p_opportunities_count (Some 1)))
             then (''entelech_warm_prospects'', ''seq_warm_nurture'', 4, ''medium'')
             else (''entelech_cold_outreach'', ''seq_cold_education'', 24, ''low''));
          (v_sequence_id, v_delay_hours) =
            (if is_true (ilike_any p_industry [''%legal%'', ''%healthcare%'', ''%financial%''])
             then (v_sequence_id @ ''_compliance'', max v_delay_hours 2)
             else (v_sequence_id, v_delay_hours));
          v_delay_hours =
            (if is_true (sql_in p_company_size [''enterprise'', ''large''])
             then max v_delay_hours 4
             else v_delay_hours)
      in \<lparr>campaign_id = v_campaign_id,
          sequence_id = v_sequence_id,
          delay_hours = v_delay_hours,
          priority = v_priority,
          assignment_reason =
            ''Lead Score: '' @ format_s p_lead_score @ '', ROI: $''
              @ format_s (to_integer (sql_div p_roi_potential (Some 1000)))
              @ ''K, Opportunities: '' @ format_s p_opportunities_count\<rparr>)"

section \<open>Tables\<close>

text \<open>
  Each table is the list of its rows, each row a record of the columns that the functions
  read or write. The columns of a row type carry the alias that the queries give the
  table.
\<close>

type_synonym uuid = nat

type_synonym timestamptz = int

record companies_row =
  c_id :: uuid
  c_company_size_category :: "string option"
  c_status :: string

record website_analyses_row =
  wa_company_id :: uuid
  wa_analysis_version :: int
  wa_scraping_status :: string

record customer_journey_analyses_row =
  cja_company_id :: uuid

record automation_opportunities_row =
  ao_company_id :: uuid
  ao_service_tier :: "string option"
  ao_priority_score :: "int option"

record prospect_tracking_row =
  pt_company_id :: uuid
  pt_lead_score :: "int option"

record instantly_integrations_row =
  ii_id :: uuid
  ii_lead_status :: "string option"
  ii_emails_sent :: "int option"
  ii_emails_opened :: "int option"
  ii_emails_clicked :: "int option"
  ii_emails_replied :: "int option"
  ii_emails_bounced :: "int option"
  ii_first_email_sent_at :: "timestamptz option"
  ii_last_activity_at :: "timestamptz option"
  ii_lead_temperature :: "string option"
  ii_engagement_score :: "int option"

record instantly_email_activities_row =
  integration_id :: uuid
  activity_type :: string
  activity_timestamp :: timestamptz
  reply_sentiment :: "string option"
  reply_intent :: "string option"

record database =
  companies :: "companies_row list"
  website_analyses :: "website_analyses_row list"
  customer_journey_analyses :: "customer_journey_analyses_row list"
  automation_opportunities :: "automation_opportunities_row list"
  prospect_tracking :: "prospect_tracking_row list"
  instantly_integrations :: "instantly_integrations_row list"
  instantly_email_activities :: "instantly_email_activities_row list"

text \<open>
  The constraint \<^verbatim>\<open>CHECK (priority_score BETWEEN 1 AND 100)\<close> of
  \<^verbatim>\<open>automation_opportunities\<close>; a NULL passes a \<open>CHECK\<close>.
\<close>

definition check_priority_score :: "database \<Rightarrow> bool" where
  "check_priority_score db =
     list_all (\<lambda>ao. case ao_priority_score ao of None \<Rightarrow> True | Some p \<Rightarrow> 1 \<le> p \<and> p \<le> 100)
       (automation_opportunities db)"

text \<open>
  The division of two integers as \<open>DECIMAL\<close> values. PostgreSQL rounds the quotient, a
  tie away from zero, to a scale that it selects from the two operands: sixteen
  significant digits at least, counted from an estimate of the weight of the quotient
  in base 10000 (the weights and first base-10000 digits of the operands).
\<close>

fun first_digit :: "nat \<Rightarrow> nat \<times> nat" where
  "first_digit n =
     (if n < 10000 then (0, n)
      else (case first_digit (n div 10000) of (weight, digit) \<Rightarrow> (Suc weight, digit)))"

definition select_div_scale :: "int \<Rightarrow> int \<Rightarrow> nat" where
  "select_div_scale a b =
     (case first_digit (nat \<bar>a\<bar>) of (weight1, firstdigit1) \<Rightarrow>
      case first_digit (nat \<bar>b\<bar>) of (weight2, firstdigit2) \<Rightarrow>
        let qweight = int weight1 - int weight2 - (if firstdigit1 \<le> firstdigit2 then 1 else 0)
        in nat (min 1000 (max 0 (16 - qweight * 4))))"

definition round_scale :: "nat \<Rightarrow> rat \<Rightarrow> rat" where
  "round_scale rscale x = of_int (sql_round (x * 10 ^ rscale)) / 10 ^ rscale"

definition numeric_div :: "int \<Rightarrow> int \<Rightarrow> rat" where
  "numeric_div a b = round_scale (select_div_scale a b) (of_int a / of_int b)"

text \<open>
  \<^verbatim>\<open>AVG\<close> over the values that are not NULL, NULL when there is none: the sum divided by
  the count, as \<open>DECIMAL\<close> values.
\<close>

definition sql_avg :: "int option list \<Rightarrow> rat option" where
  "sql_avg vs =
     (let xs = concat (map (\<lambda>v. case v of None \<Rightarrow> [] | Some x \<Rightarrow> [x]) vs)
      in if xs = [] then None else Some (numeric_div (sum_list xs) (int (length xs))))"

section \<open>Lead score\<close>

text \<open>
  A \<^verbatim>\<open>SELECT ... INTO\<close> without an aggregate assigns the first row, and NULL when there
  is no row.
\<close>

definition v_company_size_score :: "database \<Rightarrow> uuid \<Rightarrow> int option" where
  "v_company_size_score db p_company_id =
     (case filter (\<lambda>c. c_id c = p_company_id) (companies db) of
        [] \<Rightarrow> None
      | c # _ \<Rightarrow>
          Some (if is_true (sql_eq (c_company_size_category c) (Some ''enterprise'')) then 25
                else if is_true (sql_eq (c_company_size_category c) (Some ''large'')) then 20
                else if is_true (sql_eq (c_company_size_category c) (Some ''medium'')) then 15
                else if is_true (sql_eq (c_company_size_category c) (Some ''small'')) then 10
                else 5))"

definition v_automation_score :: "database \<Rightarrow> uuid \<Rightarrow> int option" where
  "v_automation_score db p_company_id =
     to_integer
       (sql_least (Some 35)
          (sql_mul
             (Some (coalesce
                (sql_avg (map ao_priority_score
                   (filter (\<lambda>ao. ao_company_id ao = p_company_id) (automation_opportunities db))))
                0))
             (Some (35 / 100))))"

text \<open>
  The subquery \<^verbatim>\<open>analysis_count\<close>: both branches select the constant 1, and \<^verbatim>\<open>UNION\<close>
  keeps one copy of equal rows.
\<close>

definition analysis_count :: "database \<Rightarrow> uuid \<Rightarrow> int list" where
  "analysis_count db p_company_id =
     remdups
       (map (\<lambda>wa. 1)
          (filter (\<lambda>wa. wa_company_id wa = p_company_id \<and> wa_scraping_status wa = ''completed'')
             (website_analyses db))
        @ map (\<lambda>cja. 1)
            (filter (\<lambda>cja. cja_company_id cja = p_company_id) (customer_journey_analyses db)))"

definition v_engagement_score :: "database \<Rightarrow> uuid \<Rightarrow> int option" where
  "v_engagement_score db p_company_id =
     (let count = int (length (analysis_count db p_company_id))
      in Some (if count \<ge> 3 then 25
               else if count = 2 then 20
               else if count = 1 then 15
               else 0))"

definition v_fit_score :: "database \<Rightarrow> uuid \<Rightarrow> int option" where
  "v_fit_score db p_company_id =
     sql_least (Some 15)
       (Some (int (length
          (filter (\<lambda>ao. ao_company_id ao = p_company_id \<and> ao_service_tier ao \<noteq> None)
             (automation_opportunities db))) * 5))"

definition lead_v_score :: "database \<Rightarrow> uuid \<Rightarrow> int option" where
  "lead_v_score db p_company_id =
     sql_add
       (sql_add
          (sql_add (v_company_size_score db p_company_id) (v_automation_score db p_company_id))
          (v_engagement_score db p_company_id))
       (v_fit_score db p_company_id)"

definition calculate_lead_score :: "database \<Rightarrow> uuid \<Rightarrow> int option" where
  "calculate_lead_score db p_company_id = sql_least (Some 100) (lead_v_score db p_company_id)"

section \<open>Stage of a prospect\<close>

text \<open>
  The trigger function of \<^verbatim>\<open>website_analyses\<close>, run after a row is inserted or updated.
  \<open>db\<close> is the database with the row written, \<open>NEW\<close> the row, \<open>OLD\<close> the row before an
  update and NULL for an insert. The function returns \<open>NEW\<close>, which an \<open>AFTER\<close> trigger
  discards: the result here is the database that it leaves.
\<close>

definition update_prospect_stage_on_analysis ::
  "database \<Rightarrow> website_analyses_row option \<Rightarrow> website_analyses_row \<Rightarrow> database" where
  "update_prospect_stage_on_analysis db OLD NEW =
     (if wa_scraping_status NEW = ''completed''
         \<or> wa_analysis_version NEW > coalesce (map_option wa_analysis_version OLD) 0
      then
        let db1 = db\<lparr>companies :=
                    map (\<lambda>c. if c_id c = wa_company_id NEW
                              then c\<lparr>c_status :=
                                     (if c_status c = ''identified'' then ''analyzing''
                                      else if c_status c = ''analyzing'' then ''analyzed''
                                      else c_status c)\<rparr>
                              else c)
                      (companies db)\<rparr>
        in db1\<lparr>prospect_tracking :=
                 map (\<lambda>pt. if pt_company_id pt = wa_company_id NEW
                            then pt\<lparr>pt_lead_score := calculate_lead_score db1 (wa_company_id NEW)\<rparr>
                            else pt)
                   (prospect_tracking db1)\<rparr>
      else db)"

text \<open>The stage of a company, NULL when the company has no row.\<close>

definition stage_of :: "database \<Rightarrow> uuid \<Rightarrow> string option" where
  "stage_of db company_id =
     (case filter (\<lambda>c. c_id c = company_id) (companies db) of
        [] \<Rightarrow> None
      | c # _ \<Rightarrow> Some (c_status c))"

section \<open>Engagement score\<close>

text \<open>
  The record \<^verbatim>\<open>v_email_metrics\<close>: the counters of the integration and the days since its
  first mail and its last activity, \<^verbatim>\<open>EXTRACT(EPOCH FROM (NOW() - t))/86400\<close>. Every
  field is NULL when the integration has no row. \<open>now\<close> is \<^verbatim>\<open>NOW()\<close>, the start of
  the transaction.
\<close>

record email_metrics =
  emails_sent :: "int option"
  emails_opened :: "int option"
  emails_clicked :: "int option"
  emails_replied :: "int option"
  emails_bounced :: "int option"
  days_since_first_email :: "rat option"
  days_since_last_activity :: "rat option"

definition days_since :: "timestamptz \<Rightarrow> timestamptz option \<Rightarrow> rat option" where
  "days_since now t = map_option (\<lambda>t. of_int (now - t) / 1000000 / 86400) t"

definition v_email_metrics :: "database \<Rightarrow> timestamptz \<Rightarrow> uuid \<Rightarrow> email_metrics" where
  "v_email_metrics db now p_integration_id =
     (case filter (\<lambda>ii. ii_id ii = p_integration_id) (instantly_integrations db) of
        [] \<Rightarrow>
          \<lparr>emails_sent = None, emails_opened = None, emails_clicked = None,
           emails_replied = None, emails_bounced = None,
           days_since_first_email = None, days_since_last_activity = None\<rparr>
      | ii # _ \<Rightarrow>
          \<lparr>emails_sent = ii_emails_sent ii,
           emails_opened = ii_emails_opened ii,
           emails_clicked = ii_emails_clicked ii,
           emails_replied = ii_emails_replied ii,
           emails_bounced = ii_emails_bounced ii,
           days_since_first_email = days_since now (ii_first_email_sent_at ii),
           days_since_last_activity = days_since now (ii_last_activity_at ii)\<rparr>)"

text \<open>
  The two aggregates of the activity query, \<^verbatim>\<open>COUNT(*)\<close> and
  \<^verbatim>\<open>COUNT(DISTINCT DATE(activity_timestamp))\<close>, over the activities of the integration in
  the thirty days before \<open>now\<close>, the session's time zone being UTC: a date is the number
  of its day.
\<close>

definition recent_activities ::
  "database \<Rightarrow> timestamptz \<Rightarrow> uuid \<Rightarrow> instantly_email_activities_row list" where
  "recent_activities db now p_integration_id =
     filter (\<lambda>a. integration_id a = p_integration_id
                  \<and> activity_timestamp a > now - 30 * 86400 * 1000000)
       (instantly_email_activities db)"

definition count_activities :: "database \<Rightarrow> timestamptz \<Rightarrow> uuid \<Rightarrow> int" where
  "count_activities db now p_integration_id =
     int (length (recent_activities db now p_integration_id))"

definition count_active_days :: "database \<Rightarrow> timestamptz \<Rightarrow> uuid \<Rightarrow> int" where
  "count_active_days db now p_integration_id =
     int (length (remdups
       (map (\<lambda>a. activity_timestamp a div (86400 * 1000000))
          (recent_activities db now p_integration_id))))"

text \<open>
  The terms that the function adds to \<^verbatim>\<open>v_score\<close>, named as its comments name them. The
  cast to \<open>INTEGER\<close> and the products of \<open>INTEGER\<close> counters are checked against 32 bits.
  (The quotients are exact here: the rounding of the division cannot move a value
  across the 32-bit bound, and no score is returned that could show it.)
\<close>

definition open_rate_scoring :: "email_metrics \<Rightarrow> error + int option" where
  "open_rate_scoring m =
     and_then
       (int4 (to_integer
          (sql_mul
             (sql_mul (sql_div (to_decimal (emails_opened m)) (to_decimal (emails_sent m)))
                (Some 100))
             (Some (6 / 10)))))
       (\<lambda>rate. Inr (sql_least (Some 15) rate))"

definition click_rate_scoring :: "email_metrics \<Rightarrow> error + int option" where
  "click_rate_scoring m =
     and_then
       (int4 (to_integer
          (sql_mul
             (sql_mul (sql_div (to_decimal (emails_clicked m)) (to_decimal (emails_opened m)))
                (Some 100))
             (Some (667 / 100)))))
       (\<lambda>rate. Inr (sql_least (Some 20) rate))"

definition reply_scoring :: "email_metrics \<Rightarrow> error + int option" where
  "reply_scoring m =
     and_then (int4 (sql_mul (emails_replied m) (Some 25)))
       (\<lambda>replies. Inr (sql_least (Some 25) replies))"

definition penalty_for_bounces :: "email_metrics \<Rightarrow> error + int option" where
  "penalty_for_bounces m = int4 (sql_mul (emails_bounced m) (Some 5))"

text \<open>
  \<^verbatim>\<open>v_score\<close> after the base scoring from the email interactions and the time-based
  engagement, the statements that precede the activity query.
\<close>

definition engagement_v_score :: "database \<Rightarrow> timestamptz \<Rightarrow> uuid \<Rightarrow> error + int option" where
  "engagement_v_score db now p_integration_id =
     (let m = v_email_metrics db now p_integration_id;
          v_score = Some 0
      in and_then
           (if is_true (sql_gt (emails_sent m) (Some 0)) then
              and_then (open_rate_scoring m) (\<lambda>points.
              and_then (int4 (sql_add v_score points)) (\<lambda>v_score.
              and_then
                (if is_true (sql_gt (emails_opened m) (Some 0))
                 then and_then (click_rate_scoring m) (\<lambda>points. int4 (sql_add v_score points))
                 else Inr v_score) (\<lambda>v_score.
              and_then (reply_scoring m) (\<lambda>points.
              and_then (int4 (sql_add v_score points)) (\<lambda>v_score.
              and_then (penalty_for_bounces m) (\<lambda>penalty.
              int4 (sql_sub v_score penalty)))))))
            else Inr v_score)
           (\<lambda>v_score.
              if days_since_last_activity m \<noteq> None then
                if is_true (sql_le (days_since_last_activity m) (Some 1))
                then int4 (sql_add v_score (Some 20))
                else if is_true (sql_le (days_since_last_activity m) (Some 7))
                then int4 (sql_add v_score (Some 15))
                else if is_true (sql_le (days_since_last_activity m) (Some 30))
                then int4 (sql_add v_score (Some 10))
                else if is_true (sql_le (days_since_last_activity m) (Some 90))
                then int4 (sql_add v_score (Some 5))
                else Inr v_score
              else Inr v_score))"

text \<open>
  The variable \<^verbatim>\<open>v_activity_metrics\<close> is declared as a \<open>RECORD\<close>. A \<open>RECORD\<close> variable has
  no fields until a row is assigned to the variable as a whole; PL/pgSQL reports
  \<^verbatim>\<open>record "v_activity_metrics" is not assigned yet\<close> for an assignment to a field
  before that. A declared variable without a row is \<open>None\<close>.
\<close>

record activity_metrics =
  total_activities :: int
  active_days :: int

definition select_into_fields ::
  "string \<Rightarrow> activity_metrics option \<Rightarrow> int \<Rightarrow> int \<Rightarrow> error + activity_metrics" where
  "select_into_fields name v n_total n_days =
     (case v of
        None \<Rightarrow> Inl (record_not_assigned name)
      | Some r \<Rightarrow> Inr (r\<lparr>total_activities := n_total, active_days := n_days\<rparr>))"

text \<open>
  The function. Nothing assigns \<^verbatim>\<open>v_activity_metrics\<close> before the activity query writes
  its two fields, so that every call that reaches the query ends there with the error;
  the statements after it are those of the source.
\<close>

definition calculate_engagement_score ::
  "database \<Rightarrow> timestamptz \<Rightarrow> uuid \<Rightarrow> error + int option" where
  "calculate_engagement_score db now p_integration_id =
     (let v_activity_metrics = None
      in and_then (engagement_v_score db now p_integration_id) (\<lambda>v_score.
         and_then
           (select_into_fields ''v_activity_metrics'' v_activity_metrics
              (count_activities db now p_integration_id)
              (count_active_days db now p_integration_id)) (\<lambda>v_activity_metrics.
         and_then
           (if active_days v_activity_metrics > 0
            then int4 (sql_add v_score
                   (sql_least (Some 20) (Some (active_days v_activity_metrics * 2))))
            else Inr v_score) (\<lambda>v_score.
         Inr (sql_greatest (Some 0) (sql_least (Some 100) v_score))))))"

section \<open>Engagement of an integration\<close>

text \<open>
  An \<^verbatim>\<open>UPDATE\<close> whose \<^verbatim>\<open>SET\<close> clause can raise: the rows in their order, the first error
  ending the statement.
\<close>

fun update_rows :: "('r \<Rightarrow> error + 'r) \<Rightarrow> 'r list \<Rightarrow> error + 'r list" where
  "update_rows f [] = Inr []"
| "update_rows f (r # rs) =
     and_then (f r) (\<lambda>r'. and_then (update_rows f rs) (\<lambda>rs'. Inr (r' # rs')))"

text \<open>
  The trigger function of \<^verbatim>\<open>instantly_email_activities\<close>, run after a row is inserted.
  \<open>db\<close> is the database with the activity \<open>NEW\<close> inserted; the result is the database that
  the function leaves, or the error that aborts the insertion. The first \<^verbatim>\<open>UPDATE\<close> calls
  \<^verbatim>\<open>calculate_engagement_score\<close> for each row that it changes, while the integration
  still has its former \<^verbatim>\<open>last_activity_at\<close>.
\<close>

definition update_engagement_on_activity ::
  "database \<Rightarrow> timestamptz \<Rightarrow> instantly_email_activities_row \<Rightarrow> error + database" where
  "update_engagement_on_activity db now NEW =
     (if activity_type NEW \<in> set [''opened'', ''clicked'', ''replied''] then
        and_then
          (update_rows
             (\<lambda>ii. if ii_id ii = integration_id NEW
                    then and_then (calculate_engagement_score db now (integration_id NEW))
                           (\<lambda>score.
                              Inr (ii\<lparr>ii_engagement_score := score,
                                      ii_lead_temperature :=
                                        (if activity_type NEW = ''replied''
                                            \<and> is_true (sql_eq (reply_sentiment NEW) (Some ''positive''))
                                         then Some ''hot''
                                         else if activity_type NEW = ''replied''
                                            \<and> is_true (sql_eq (reply_sentiment NEW) (Some ''negative''))
                                         then Some ''cold''
                                         else if activity_type NEW = ''clicked''
                                         then Some ''warm''
                                         else ii_lead_temperature ii),
                                      ii_last_activity_at := Some (activity_timestamp NEW)\<rparr>))
                    else Inr ii)
             (instantly_integrations db))
          (\<lambda>rows.
             let db1 = db\<lparr>instantly_integrations := rows\<rparr>
             in if activity_type NEW = ''replied'' then
                  Inr (db1\<lparr>instantly_integrations :=
                        map (\<lambda>ii. if ii_id ii = integration_id NEW
                                   then ii\<lparr>ii_lead_status :=
                                            (if is_true (sql_or
                                                   (sql_eq (reply_sentiment NEW) (Some ''negative''))
                                                   (sql_eq (reply_intent NEW)
                                                      (Some ''unsubscribe_request'')))
                                             then Some ''unsubscribed''
                                             else if is_true (sql_or
                                                   (sql_eq (reply_sentiment NEW) (Some ''positive''))
                                                   (sql_eq (reply_intent NEW) (Some ''interested'')))
                                             then Some ''replied''
                                             else ii_lead_status ii)\<rparr>
                                   else ii)
                          (instantly_integrations db1)\<rparr>)
                else Inr db1)
      else Inr db)"

section \<open>Notions of the specification\<close>

text \<open>
  A condition of the tier table holds when the comparison is true: a NULL argument
  makes it fail.
\<close>

definition at_least :: "'a::linorder option \<Rightarrow> 'a \<Rightarrow> bool" where
  "at_least a k = (case a of None \<Rightarrow> False | Some v \<Rightarrow> k \<le> v)"

definition above :: "'a::linorder option \<Rightarrow> 'a \<Rightarrow> bool" where
  "above a k = (case a of None \<Rightarrow> False | Some v \<Rightarrow> k < v)"

definition regulated_industry :: "string option \<Rightarrow> bool" where
  "regulated_industry p_industry =
     is_true (ilike_any p_industry [''%legal%'', ''%healthcare%'', ''%financial%''])"

definition enterprise_or_large :: "string option \<Rightarrow> bool" where
  "enterprise_or_large p_company_size =
     is_true (sql_in p_company_size [''enterprise'', ''large''])"

text \<open>The delay of a tier after the industry and the company size adjustments.\<close>

definition adjusted_delay :: "string option \<Rightarrow> string option \<Rightarrow> rat \<Rightarrow> rat" where
  "adjusted_delay p_industry p_company_size d =
     (let d = (if regulated_industry p_industry then max d 2 else d)
      in if enterprise_or_large p_company_size then max d 4 else d)"

text \<open>One step along identified, analyzing, analyzed; any other stage stays.\<close>

definition next_stage :: "string \<Rightarrow> string" where
  "next_stage s =
     (if s = ''identified'' then ''analyzing''
      else if s = ''analyzing'' then ''analyzed''
      else s)"

section \<open>An example database\<close>

text \<open>
  Company 10 is an enterprise at stage identified, with one completed website analysis,
  one journey analysis and four opportunities. Integration 100 has 100 mails sent, 50
  opened, 10 clicked, 1 replied and 2 bounced, its last activity now, and activities on
  ten days of the last thirty; its temperature is hot. Integration 200 has ten mails
  sent and all ten bounced; its temperature is cold.
\<close>

definition example_now :: timestamptz where
  "example_now = 40 * 86400 * 1000000"

definition example_db :: database where
  "example_db =
     \<lparr>companies =
        [\<lparr>c_id = 10, c_company_size_category = Some ''enterprise'', c_status = ''identified''\<rparr>,
         \<lparr>c_id = 20, c_company_size_category = None, c_status = ''contacted''\<rparr>],
      website_analyses =
        [\<lparr>wa_company_id = 10, wa_analysis_version = 1, wa_scraping_status = ''completed''\<rparr>],
      customer_journey_analyses = [\<lparr>cja_company_id = 10\<rparr>],
      automation_opportunities =
        [\<lparr>ao_company_id = 10, ao_service_tier = Some ''basic_2_5k'',
          ao_priority_score = Some 80\<rparr>,
         \<lparr>ao_company_id = 10, ao_service_tier = Some ''enterprise_15k'',
          ao_priority_score = Some 90\<rparr>,
         \<lparr>ao_company_id = 10, ao_service_tier = None, ao_priority_score = Some 70\<rparr>,
         \<lparr>ao_company_id = 10, ao_service_tier = None, ao_priority_score = None\<rparr>],
      prospect_tracking = [\<lparr>pt_company_id = 10, pt_lead_score = None\<rparr>],
      instantly_integrations =
        [\<lparr>ii_id = 100, ii_lead_status = Some ''active'',
          ii_emails_sent = Some 100, ii_emails_opened = Some 50, ii_emails_clicked = Some 10,
          ii_emails_replied = Some 1, ii_emails_bounced = Some 2,
          ii_first_email_sent_at = Some 0, ii_last_activity_at = Some (40 * 86400 * 1000000),
          ii_lead_temperature = Some ''hot'', ii_engagement_score = Some 0\<rparr>,
         \<lparr>ii_id = 200, ii_lead_status = Some ''active'',
          ii_emails_sent = Some 10, ii_emails_opened = Some 0, ii_emails_clicked = Some 0,
          ii_emails_replied = Some 0, ii_emails_bounced = Some 10,
          ii_first_email_sent_at = Some 0, ii_last_activity_at = None,
          ii_lead_temperature = Some ''cold'', ii_engagement_score = Some 0\<rparr>],
      instantly_email_activities =
        map (\<lambda>day. \<lparr>integration_id = 100, activity_type = ''clicked'',
                     activity_timestamp = day * 86400 * 1000000,
                     reply_sentiment = None, reply_intent = None\<rparr>)
          [31, 32, 33, 34, 35, 36, 37, 38, 39, 40]\<rparr>"

definition example_click :: instantly_email_activities_row where
  "example_click =
     \<lparr>integration_id = 100, activity_type = ''clicked'',
      activity_timestamp = 40 * 86400 * 1000000,
      reply_sentiment = None, reply_intent = None\<rparr>"

definition example_click_cold :: instantly_email_activities_row where
  "example_click_cold =
     \<lparr>integration_id = 200, activity_type = ''clicked'',
      activity_timestamp = 40 * 86400 * 1000000,
      reply_sentiment = None, reply_intent = None\<rparr>"

definition example_bounce :: instantly_email_activities_row where
  "example_bounce =
     \<lparr>integration_id = 100, activity_type = ''bounced'',
      activity_timestamp = 40 * 86400 * 1000000,
      reply_sentiment = None, reply_intent = None\<rparr>"

definition example_analysis :: website_analyses_row where
  "example_analysis =
     \<lparr>wa_company_id = 10, wa_analysis_version = 1, wa_scraping_status = ''completed''\<rparr>"

section \<open>Evaluation of the operators\<close>

lemmas sql_defs =
  is_true_def sql_or_def sql_and_def sql_lift2_def sql_eq_def sql_gt_def sql_ge_def sql_le_def
  sql_add_def sql_sub_def sql_mul_def sql_div_def coalesce_def sql_in_def sql_least_def
  sql_greatest_def to_decimal_def to_integer_def

lemmas error_defs = and_then_def int4_def

lemmas classifier_defs =
  analyze_reply_basic_def v_content_lower_def lower_def lower_char_def coalesce_def
  regex_match_any_def regex_match_def v_keywords_positive_def v_keywords_negative_def
  v_keywords_meeting_def v_keywords_pricing_def

lemma is_true_sql_ge: "is_true (sql_ge a (Some k)) = at_least a k"
  by (cases a) (simp_all add: is_true_def sql_ge_def sql_lift2_def at_least_def)

lemma is_true_sql_gt: "is_true (sql_gt a (Some k)) = above a k"
  by (cases a) (simp_all add: is_true_def sql_gt_def sql_lift2_def above_def)

lemma is_true_sql_or: "is_true (sql_or a b) = (is_true a \<or> is_true b)"
  by (simp add: is_true_def sql_or_def)

lemma is_true_sql_and: "is_true (sql_and a b) = (is_true a \<and> is_true b)"
  by (auto simp add: is_true_def sql_and_def)

lemmas tier_conditions = is_true_sql_or is_true_sql_and is_true_sql_ge is_true_sql_gt

lemma sql_round_range:
  assumes "0 \<le> x" and "x \<le> of_int k"
  shows "0 \<le> sql_round x \<and> sql_round x \<le> k"
proof -
  from assms have "x + 1 / 2 < of_int k + 1" by linarith
  then have "\<lfloor>x + 1 / 2\<rfloor> \<le> k" by (simp add: floor_le_iff)
  moreover from assms have "0 \<le> \<lfloor>x + 1 / 2\<rfloor>" by (simp add: le_floor_iff)
  ultimately show ?thesis using assms by (simp add: sql_round_def)
qed

lemma round_scale_nonneg: "0 \<le> x \<Longrightarrow> 0 \<le> round_scale rscale x"
proof -
  assume "0 \<le> x"
  then have "0 \<le> x * 10 ^ rscale" by simp
  then have "0 \<le> \<lfloor>x * 10 ^ rscale + 1 / 2\<rfloor>" by (simp add: le_floor_iff)
  with \<open>0 \<le> x * 10 ^ rscale\<close> have "0 \<le> sql_round (x * 10 ^ rscale)"
    by (simp add: sql_round_def)
  then show ?thesis by (simp add: round_scale_def)
qed

lemma sql_avg_nonneg:
  assumes "\<forall>v \<in> set vs. case v of None \<Rightarrow> True | Some p \<Rightarrow> 1 \<le> p \<and> p \<le> (100::int)"
  shows "0 \<le> coalesce (sql_avg vs) 0"
proof -
  have "\<forall>x \<in> set (concat (map (\<lambda>v. case v of None \<Rightarrow> [] | Some x \<Rightarrow> [x]) vs)). 0 \<le> x"
    using assms by (fastforce split: option.splits)
  then have "0 \<le> sum_list (concat (map (\<lambda>v. case v of None \<Rightarrow> [] | Some x \<Rightarrow> [x]) vs))"
    by (blast intro: sum_list_nonneg)
  then have "0 \<le> numeric_div (sum_list (concat (map (\<lambda>v. case v of None \<Rightarrow> [] | Some x \<Rightarrow> [x]) vs)))
                   (int (length (concat (map (\<lambda>v. case v of None \<Rightarrow> [] | Some x \<Rightarrow> [x]) vs))))"
    unfolding numeric_div_def by (intro round_scale_nonneg) simp
  then show ?thesis
    by (simp add: sql_avg_def coalesce_def Let_def)
qed

section \<open>The four components of the lead score\<close>

lemma v_company_size_score_range:
  assumes "\<exists>c \<in> set (companies db). c_id c = cid"
  shows "\<exists>k. v_company_size_score db cid = Some k \<and> 5 \<le> k \<and> k \<le> 25"
proof -
  from assms have "filter (\<lambda>c. c_id c = cid) (companies db) \<noteq> []"
    by (auto simp add: filter_empty_conv)
  then show ?thesis
    by (cases "filter (\<lambda>c. c_id c = cid) (companies db)")
       (simp_all add: v_company_size_score_def)
qed

lemma v_automation_score_range:
  assumes "check_priority_score db"
  shows "\<exists>a. v_automation_score db cid = Some a \<and> 0 \<le> a \<and> a \<le> 35"
proof -
  let ?vs = "map ao_priority_score
               (filter (\<lambda>ao. ao_company_id ao = cid) (automation_opportunities db))"
  have "\<forall>v \<in> set ?vs. case v of None \<Rightarrow> True | Some p \<Rightarrow> 1 \<le> p \<and> p \<le> (100::int)"
    using assms by (auto simp add: check_priority_score_def list_all_iff)
  then have "0 \<le> coalesce (sql_avg ?vs) 0" by (rule sql_avg_nonneg)
  then have "0 \<le> min 35 (coalesce (sql_avg ?vs) 0 * (35 / 100))" by simp
  moreover have "min 35 (coalesce (sql_avg ?vs) 0 * (35 / 100)) \<le> of_int 35" by simp
  ultimately have "0 \<le> sql_round (min 35 (coalesce (sql_avg ?vs) 0 * (35 / 100)))
      \<and> sql_round (min 35 (coalesce (sql_avg ?vs) 0 * (35 / 100))) \<le> 35"
    by (rule sql_round_range)
  then show ?thesis
    by (simp add: v_automation_score_def to_integer_def sql_least_def sql_mul_def sql_lift2_def)
qed

lemma v_engagement_score_range:
  "\<exists>e. v_engagement_score db cid = Some e \<and> 0 \<le> e \<and> e \<le> 25"
  by (simp add: v_engagement_score_def Let_def)

lemma v_fit_score_range:
  "\<exists>f. v_fit_score db cid = Some f \<and> 0 \<le> f \<and> f \<le> 15"
  by (simp add: v_fit_score_def sql_least_def)

lemma lead_v_score_range:
  assumes "check_priority_score db" and "\<exists>c \<in> set (companies db). c_id c = cid"
  shows "\<exists>v. lead_v_score db cid = Some v \<and> 5 \<le> v \<and> v \<le> 100"
proof -
  from v_company_size_score_range [OF assms(2)] obtain k
    where k: "v_company_size_score db cid = Some k" "5 \<le> k" "k \<le> 25" by blast
  from v_automation_score_range [OF assms(1)] obtain a
    where a: "v_automation_score db cid = Some a" "0 \<le> a" "a \<le> 35" by blast
  from v_engagement_score_range obtain e
    where e: "v_engagement_score db cid = Some e" "0 \<le> e" "e \<le> 25" by blast
  from v_fit_score_range obtain f
    where f: "v_fit_score db cid = Some f" "0 \<le> f" "f \<le> 15" by blast
  from k a e f show ?thesis
    by (simp add: lead_v_score_def sql_add_def sql_lift2_def)
qed

section \<open>The example database, evaluated\<close>

lemma example_avg: "numeric_div 240 3 = 80"
  by (simp add: numeric_div_def select_div_scale_def round_scale_def sql_round_def
        floor_eq_iff)

lemma example_lead_v_score: "lead_v_score example_db 10 = Some 78"
  by (simp add: lead_v_score_def v_company_size_score_def v_automation_score_def
        v_engagement_score_def analysis_count_def v_fit_score_def sql_avg_def example_db_def
        sql_defs example_avg sql_round_def floor_eq_iff)

lemma example_metrics:
  "v_email_metrics example_db example_now 100 =
     \<lparr>emails_sent = Some 100, emails_opened = Some 50, emails_clicked = Some 10,
      emails_replied = Some 1, emails_bounced = Some 2,
      days_since_first_email = Some 40, days_since_last_activity = Some 0\<rparr>"
  by (simp add: v_email_metrics_def example_db_def example_now_def days_since_def)

lemma example_terms:
  "open_rate_scoring (v_email_metrics example_db example_now 100) = Inr (Some 15)"
  "click_rate_scoring (v_email_metrics example_db example_now 100) = Inr (Some 20)"
  "reply_scoring (v_email_metrics example_db example_now 100) = Inr (Some 25)"
  "penalty_for_bounces (v_email_metrics example_db example_now 100) = Inr (Some 10)"
  by (simp_all add: example_metrics open_rate_scoring_def click_rate_scoring_def
        reply_scoring_def penalty_for_bounces_def sql_defs error_defs sql_round_def
        floor_eq_iff)

lemma example_engagement_v_score: "engagement_v_score example_db example_now 100 = Inr (Some 70)"
proof -
  let ?m = "v_email_metrics example_db example_now 100"
  have branches:
    "is_true (sql_gt (emails_sent ?m) (Some 0))"
    "is_true (sql_gt (emails_opened ?m) (Some 0))"
    "days_since_last_activity ?m \<noteq> None"
    "is_true (sql_le (days_since_last_activity ?m) (Some 1))"
    by (simp_all add: example_metrics sql_defs)
  show ?thesis
    unfolding engagement_v_score_def Let_def
    by (simp add: branches example_terms and_then_def int4_def sql_add_def sql_sub_def
          sql_lift2_def)
qed

lemma example_bounced_v_score:
  "engagement_v_score example_db example_now 200 = Inr (Some (- 50))"
  by (simp add: engagement_v_score_def Let_def v_email_metrics_def example_db_def
        example_now_def days_since_def open_rate_scoring_def click_rate_scoring_def
        reply_scoring_def penalty_for_bounces_def sql_defs error_defs sql_round_def
        floor_eq_iff)

section \<open>The error of the engagement score\<close>

lemma after_v_score_raises:
  "engagement_v_score db now p_integration_id = Inr v_score \<Longrightarrow>
     calculate_engagement_score db now p_integration_id
       = Inl (record_not_assigned ''v_activity_metrics'')"
  by (simp add: calculate_engagement_score_def and_then_def select_into_fields_def Let_def)

lemma calculate_engagement_score_raises:
  "\<exists>e. calculate_engagement_score db now p_integration_id = Inl e"
proof (cases "engagement_v_score db now p_integration_id")
  case (Inl e)
  then show ?thesis by (simp add: calculate_engagement_score_def and_then_def Let_def)
next
  case (Inr v_score)
  then show ?thesis by (simp add: after_v_score_raises)
qed

lemma update_rows_raises:
  assumes "r \<in> set rs" and "f r = Inl e"
    and "\<And>r' e'. r' \<in> set rs \<Longrightarrow> f r' = Inl e' \<Longrightarrow> e' = e"
  shows "update_rows f rs = Inl e"
  using assms
proof (induction rs)
  case Nil
  then show ?case by simp
next
  case (Cons a rs)
  show ?case
  proof (cases "f a")
    case (Inl e')
    with Cons.prems(3) [of a e'] have "e' = e" by simp
    with Inl show ?thesis by (simp add: and_then_def)
  next
    case (Inr a')
    with Cons.prems(1,2) have "r \<in> set rs" by auto
    moreover note Cons.prems(2)
    moreover have "e' = e" if "r' \<in> set rs" and "f r' = Inl e'" for r' e'
      using Cons.prems(3) [of r' e'] that by simp
    ultimately have "update_rows f rs = Inl e" by (rule Cons.IH)
    with Inr show ?thesis by (simp add: and_then_def)
  qed
qed

text \<open>
  An activity of kind opened, clicked or replied whose integration has a row (the
  foreign key of the activity requires one) ends the trigger with the error of
  \<^verbatim>\<open>calculate_engagement_score\<close>.
\<close>

lemma engagement_trigger_raises:
  assumes "activity_type NEW \<in> {''opened'', ''clicked'', ''replied''}"
    and "ii \<in> set (instantly_integrations db)" and "ii_id ii = integration_id NEW"
    and "calculate_engagement_score db now (integration_id NEW) = Inl e"
  shows "update_engagement_on_activity db now NEW = Inl e"
proof -
  let ?f = "\<lambda>ii. if ii_id ii = integration_id NEW
                    then and_then (calculate_engagement_score db now (integration_id NEW))
                           (\<lambda>score.
                              Inr (ii\<lparr>ii_engagement_score := score,
                                      ii_lead_temperature :=
                                        (if activity_type NEW = ''replied''
                                            \<and> is_true (sql_eq (reply_sentiment NEW) (Some ''positive''))
                                         then Some ''hot''
                                         else if activity_type NEW = ''replied''
                                            \<and> is_true (sql_eq (reply_sentiment NEW) (Some ''negative''))
                                         then Some ''cold''
                                         else if activity_type NEW = ''clicked''
                                         then Some ''warm''
                                         else ii_lead_temperature ii),
                                      ii_last_activity_at := Some (activity_timestamp NEW)\<rparr>))
                    else Inr ii"
  note assms(2)
  moreover from assms(3,4) have "?f ii = Inl e" by (simp add: and_then_def)
  moreover have "e' = e" if "r' \<in> set (instantly_integrations db)" and "?f r' = Inl e'"
    for r' e'
  proof (cases "ii_id r' = integration_id NEW")
    case True
    with that(2) assms(4) show ?thesis by (simp add: and_then_def)
  next
    case False
    with that(2) show ?thesis by simp
  qed
  ultimately have "update_rows ?f (instantly_integrations db) = Inl e"
    by (rule update_rows_raises)
  with assms(1) show ?thesis
    by (simp add: update_engagement_on_activity_def and_then_def)
qed

lemma example_score_raises:
  "calculate_engagement_score example_db example_now 100
     = Inl (record_not_assigned ''v_activity_metrics'')"
  "calculate_engagement_score example_db example_now 200
     = Inl (record_not_assigned ''v_activity_metrics'')"
  by (simp_all add: after_v_score_raises [OF example_engagement_v_score]
        after_v_score_raises [OF example_bounced_v_score])

lemma example_integrations:
  "\<exists>ii \<in> set (instantly_integrations example_db). ii_id ii = 100"
  "\<exists>ii \<in> set (instantly_integrations example_db). ii_id ii = 200"
  by (simp_all add: example_db_def)

lemma example_clicks_raise:
  "update_engagement_on_activity example_db example_now example_click
     = Inl (record_not_assigned ''v_activity_metrics'')"
  "update_engagement_on_activity example_db example_now example_click_cold
     = Inl (record_not_assigned ''v_activity_metrics'')"
proof -
  from example_integrations(1) obtain ii
    where "ii \<in> set (instantly_integrations example_db)" "ii_id ii = 100" by blast
  then show "update_engagement_on_activity example_db example_now example_click
     = Inl (record_not_assigned ''v_activity_metrics'')"
    by (intro engagement_trigger_raises [of _ ii])
       (simp_all add: example_click_def example_score_raises)
next
  from example_integrations(2) obtain ii
    where "ii \<in> set (instantly_integrations example_db)" "ii_id ii = 200" by blast
  then show "update_engagement_on_activity example_db example_now example_click_cold
     = Inl (record_not_assigned ''v_activity_metrics'')"
    by (intro engagement_trigger_raises [of _ ii])
       (simp_all add: example_click_cold_def example_score_raises)
qed

section \<open>Bounds of the scores\<close>

text \<open>
  C1. The claim gives both scores a value from 0 to 100. For the lead score it holds:
  for a company that has a row, in a database that satisfies the \<open>CHECK\<close> constraint on
  \<^verbatim>\<open>priority_score\<close>, \<^verbatim>\<open>calculate_lead_score\<close> returns the sum of the four components
  capped at 100, from 0 to 100. For the engagement score the code does not do what the
  claim says: \<^verbatim>\<open>calculate_engagement_score\<close> ends with an error on every call and returns
  no score, so that the clamp to floor 0 and ceiling 100 of its last statement is never
  reached. Evaluated on integration 200 of the example, whose running total the
  bounces bring to -50, the call ends with
  \<^verbatim>\<open>record "v_activity_metrics" is not assigned yet\<close>.
\<close>

theorem lead_score_in_range_engagement_score_raises:
  "(check_priority_score db \<and> (\<exists>c \<in> set (companies db). c_id c = p_company_id)
      \<longrightarrow> (\<exists>s. calculate_lead_score db p_company_id = Some s \<and> 0 \<le> s \<and> s \<le> 100))
   \<and> (lead_v_score db p_company_id = Some v
      \<longrightarrow> calculate_lead_score db p_company_id = Some (min 100 v))
   \<and> (\<exists>e. calculate_engagement_score db now p_integration_id = Inl e)
   \<and> engagement_v_score example_db example_now 200 = Inr (Some (- 50))
   \<and> calculate_engagement_score example_db example_now 200
       = Inl (record_not_assigned ''v_activity_metrics'')"
proof -
  have "\<exists>s. calculate_lead_score db p_company_id = Some s \<and> 0 \<le> s \<and> s \<le> 100"
    if "check_priority_score db" and "\<exists>c \<in> set (companies db). c_id c = p_company_id"
  proof -
    from lead_v_score_range [OF that] obtain t
      where "lead_v_score db p_company_id = Some t" "5 \<le> t" "t \<le> 100" by blast
    then show ?thesis by (simp add: calculate_lead_score_def sql_least_def)
  qed
  moreover have "lead_v_score db p_company_id = Some v
      \<longrightarrow> calculate_lead_score db p_company_id = Some (min 100 v)"
    by (simp add: calculate_lead_score_def sql_least_def)
  moreover have "\<exists>e. calculate_engagement_score db now p_integration_id = Inl e"
    by (rule calculate_engagement_score_raises)
  ultimately show ?thesis
    using example_bounced_v_score example_score_raises(2) by blast
qed

theorem lead_score_in_range_engagement_score_raises_witness:
  "check_priority_score example_db
   \<and> lead_v_score example_db 10 = Some 78
   \<and> calculate_lead_score example_db 10 = Some 78"
proof -
  have a: "check_priority_score example_db"
    by (simp add: check_priority_score_def example_db_def)
  have b: "\<exists>c \<in> set (companies example_db). c_id c = 10"
    by (simp add: example_db_def)
  from a b example_lead_v_score
    lead_score_in_range_engagement_score_raises [of example_db 10 78 example_now 200]
  show ?thesis by simp
qed

section \<open>Analysis completeness\<close>

text \<open>
  C2. The claim gives the analysis component of the lead score as 20 for a company with a
  completed website analysis and a journey analysis. Evaluated on company 10 of the
  example, which has one of each, the component is 15: the two rows of the subquery are
  equal and \<^verbatim>\<open>UNION\<close> keeps one, so that the count is 1.
\<close>

theorem analysis_component_both_present:
  "map wa_company_id (website_analyses example_db) = [10]
   \<and> map wa_scraping_status (website_analyses example_db) = [''completed'']
   \<and> map cja_company_id (customer_journey_analyses example_db) = [10]
   \<and> analysis_count example_db 10 = [1]
   \<and> v_engagement_score example_db 10 = Some 15"
  by (simp add: v_engagement_score_def analysis_count_def example_db_def)

section \<open>Campaign assignment: tiers and adjustments\<close>

lemma assignment_fields:
  "campaign_id (get_optimal_campaign_assignment ls roi ind sz n) =
     (if at_least ls 80 \<or> above roi 50000 then ''entelech_enterprise_vip''
      else if at_least ls 60 \<or> (above roi 25000 \<and> at_least n 2)
      then ''entelech_professional_priority''
      else if at_least ls 40 \<or> at_least n 1 then ''entelech_warm_prospects''
      else ''entelech_cold_outreach'')"
  "priority (get_optimal_campaign_assignment ls roi ind sz n) =
     (if at_least ls 80 \<or> above roi 50000 then ''high''
      else if at_least ls 60 \<or> (above roi 25000 \<and> at_least n 2) then ''medium''
      else if at_least ls 40 \<or> at_least n 1 then ''medium''
      else ''low'')"
  "delay_hours (get_optimal_campaign_assignment ls roi ind sz n) =
     adjusted_delay ind sz
       (if at_least ls 80 \<or> above roi 50000 then 1 / 2
        else if at_least ls 60 \<or> (above roi 25000 \<and> at_least n 2) then 1
        else if at_least ls 40 \<or> at_least n 1 then 4
        else 24)"
  "sequence_id (get_optimal_campaign_assignment ls roi ind sz n) =
     (if at_least ls 80 \<or> above roi 50000 then ''seq_enterprise_executive''
      else if at_least ls 60 \<or> (above roi 25000 \<and> at_least n 2)
      then ''seq_professional_priority''
      else if at_least ls 40 \<or> at_least n 1 then ''seq_warm_nurture''
      else ''seq_cold_education'')
     @ (if regulated_industry ind then ''_compliance'' else [])"
  by (simp_all add: get_optimal_campaign_assignment_def tier_conditions adjusted_delay_def
        regulated_industry_def enterprise_or_large_def Let_def)

lemma healthcare_services_regulated: "regulated_industry (Some ''Healthcare Services'')"
  by (simp add: regulated_industry_def is_true_def ilike_any_def lower_def lower_char_def)

text \<open>
  C3, as the claim states it, fails: a lead score of 85 and an ROI potential of 60000
  select the enterprise tier, and for a company of size enterprise the function returns
  a delay of 4 hours, not 0.5.
\<close>

theorem enterprise_tier_delay_counterexample:
  "at_least (Some (85::int)) 80
   \<and> above (Some (60000::rat)) 50000
   \<and> campaign_id (get_optimal_campaign_assignment (Some 85) (Some 60000) None
        (Some ''enterprise'') (Some 0)) = ''entelech_enterprise_vip''
   \<and> delay_hours (get_optimal_campaign_assignment (Some 85) (Some 60000) None
        (Some ''enterprise'') (Some 0)) = 4
   \<and> delay_hours (get_optimal_campaign_assignment (Some 85) (Some 60000) None
        (Some ''enterprise'') (Some 0)) \<noteq> 1 / 2"
  by (simp add: get_optimal_campaign_assignment_def sql_defs ilike_any_def at_least_def
        above_def)

text \<open>
  C3, amended. The tier conditions are evaluated top-down, the first match winning:
  lead score at least 80 or ROI potential above 50000 gives the enterprise campaign with
  priority high and tier delay 0.5; else lead score at least 60, or ROI potential above
  25000 with at least 2 opportunities, gives the professional campaign with priority
  medium and tier delay 1; else lead score at least 40 or at least 1 opportunity gives
  the warm campaign with priority medium and tier delay 4; else the cold campaign with
  priority low and tier delay 24. The delay returned is the tier delay after the two
  adjustments (at least 2 for a regulated industry, then at least 4 for a company of size
  enterprise or large), and is the tier delay itself when neither applies. For a lead
  score of 85 and an ROI potential of 60000, without industry and company size, the
  result is the enterprise campaign, delay 0.5, priority high.
\<close>

theorem campaign_tiers_then_adjustments:
  "(at_least ls 80 \<or> above roi 50000 \<longrightarrow>
      campaign_id (get_optimal_campaign_assignment ls roi ind sz n) = ''entelech_enterprise_vip''
      \<and> priority (get_optimal_campaign_assignment ls roi ind sz n) = ''high''
      \<and> delay_hours (get_optimal_campaign_assignment ls roi ind sz n)
          = adjusted_delay ind sz (1 / 2))
   \<and> (\<not> (at_least ls 80 \<or> above roi 50000)
        \<and> (at_least ls 60 \<or> (above roi 25000 \<and> at_least n 2)) \<longrightarrow>
      campaign_id (get_optimal_campaign_assignment ls roi ind sz n)
          = ''entelech_professional_priority''
      \<and> priority (get_optimal_campaign_assignment ls roi ind sz n) = ''medium''
      \<and> delay_hours (get_optimal_campaign_assignment ls roi ind sz n)
          = adjusted_delay ind sz 1)
   \<and> (\<not> (at_least ls 80 \<or> above roi 50000)
        \<and> \<not> (at_least ls 60 \<or> (above roi 25000 \<and> at_least n 2))
        \<and> (at_least ls 40 \<or> at_least n 1) \<longrightarrow>
      campaign_id (get_optimal_campaign_assignment ls roi ind sz n) = ''entelech_warm_prospects''
      \<and> priority (get_optimal_campaign_assignment ls roi ind sz n) = ''medium''
      \<and> delay_hours (get_optimal_campaign_assignment ls roi ind sz n)
          = adjusted_delay ind sz 4)
   \<and> (\<not> (at_least ls 80 \<or> above roi 50000)
        \<and> \<not> (at_least ls 60 \<or> (above roi 25000 \<and> at_least n 2))
        \<and> \<not> (at_least ls 40 \<or> at_least n 1) \<longrightarrow>
      campaign_id (get_optimal_campaign_assignment ls roi ind sz n) = ''entelech_cold_outreach''
      \<and> priority (get_optimal_campaign_assignment ls roi ind sz n) = ''low''
      \<and> delay_hours (get_optimal_campaign_assignment ls roi ind sz n)
          = adjusted_delay ind sz 24)
   \<and> (\<not> regulated_industry ind \<and> \<not> enterprise_or_large sz \<longrightarrow> adjusted_delay ind sz d = d)
   \<and> campaign_id (get_optimal_campaign_assignment (Some 85) (Some 60000) None None k)
       = ''entelech_enterprise_vip''
   \<and> delay_hours (get_optimal_campaign_assignment (Some 85) (Some 60000) None None k) = 1 / 2
   \<and> priority (get_optimal_campaign_assignment (Some 85) (Some 60000) None None k) = ''high''"
  by (simp add: assignment_fields adjusted_delay_def)
     (simp add: at_least_def regulated_industry_def enterprise_or_large_def ilike_any_def
        sql_in_def is_true_def)

theorem campaign_tiers_then_adjustments_witness:
  "at_least (Some (85::int)) 80
   \<and> \<not> regulated_industry None \<and> \<not> enterprise_or_large None
   \<and> delay_hours (get_optimal_campaign_assignment (Some 85) (Some 60000) None None None) = 1 / 2
   \<and> campaign_id (get_optimal_campaign_assignment (Some 65) None None None None)
       = ''entelech_professional_priority''
   \<and> campaign_id (get_optimal_campaign_assignment (Some 45) None None None None)
       = ''entelech_warm_prospects''
   \<and> campaign_id (get_optimal_campaign_assignment (Some 10) None None None None)
       = ''entelech_cold_outreach''"
  using campaign_tiers_then_adjustments [of "Some 85" "Some 60000" None None None "1 / 2" None]
        campaign_tiers_then_adjustments [of "Some 65" None None None None 1 None]
        campaign_tiers_then_adjustments [of "Some 45" None None None None 4 None]
        campaign_tiers_then_adjustments [of "Some 10" None None None None 24 None]
  by (simp add: at_least_def above_def regulated_industry_def enterprise_or_large_def
        ilike_any_def sql_in_def is_true_def)

text \<open>
  C7, as the claim states it, fails: for a lead score of 45 and the industry
  ``Healthcare Services'' the delay returned is 4 hours, not 2.
\<close>

theorem healthcare_delay_counterexample:
  "delay_hours (get_optimal_campaign_assignment (Some 45) None (Some ''Healthcare Services'')
      None None) = 4
   \<and> delay_hours (get_optimal_campaign_assignment (Some 45) None (Some ''Healthcare Services'')
      None None) \<noteq> 2"
  by (simp add: get_optimal_campaign_assignment_def sql_defs ilike_any_def lower_def
        lower_char_def)

text \<open>
  C7, amended. For a lead score of 45 and the industry ``Healthcare Services'', with no
  ROI potential or opportunity count that qualifies for a higher tier, the function
  assigns the warm tier and appends the compliance variant to the sequence identifier,
  the industry matching the regulated pattern; the delay returned is 4 hours, the
  regulated adjustment \<open>max delay 2\<close> leaving the 4 hours of the warm tier in place.
\<close>

theorem healthcare_warm_compliance:
  "\<not> above roi 50000 \<Longrightarrow> \<not> (above roi 25000 \<and> at_least n 2) \<Longrightarrow>
     regulated_industry (Some ''Healthcare Services'')
     \<and> campaign_id (get_optimal_campaign_assignment (Some 45) roi (Some ''Healthcare Services'')
          sz n) = ''entelech_warm_prospects''
     \<and> sequence_id (get_optimal_campaign_assignment (Some 45) roi (Some ''Healthcare Services'')
          sz n) = ''seq_warm_nurture_compliance''
     \<and> priority (get_optimal_campaign_assignment (Some 45) roi (Some ''Healthcare Services'')
          sz n) = ''medium''
     \<and> delay_hours (get_optimal_campaign_assignment (Some 45) roi (Some ''Healthcare Services'')
          sz n) = 4
     \<and> max (4::rat) 2 = 4"
  by (simp add: assignment_fields adjusted_delay_def healthcare_services_regulated)
     (simp add: at_least_def)

theorem healthcare_warm_compliance_witness:
  "\<not> above (None :: rat option) 50000
   \<and> sequence_id (get_optimal_campaign_assignment (Some 45) None (Some ''Healthcare Services'')
        None None) = ''seq_warm_nurture_compliance''
   \<and> delay_hours (get_optimal_campaign_assignment (Some 45) None (Some ''Healthcare Services'')
        None None) = 4"
  using healthcare_warm_compliance [of None None None] by (simp add: above_def)

section \<open>Reply classification: defaults and precedence\<close>

text \<open>
  C5. The classifier returns a result for every reply text, NULL and the empty text
  included: the sentiment, the intent and the confidence are always among their
  documented values, and no statement of the function can raise. For NULL and for the
  empty text the result is sentiment neutral, intent general_inquiry, confidence medium
  and no human review.
\<close>

theorem reply_classifier_defaults:
  "analyze_reply_basic None =
     \<lparr>sentiment = ''neutral'', intent = ''general_inquiry'', confidence = ''medium'',
      requires_human_review = False\<rparr>
   \<and> analyze_reply_basic (Some []) =
     \<lparr>sentiment = ''neutral'', intent = ''general_inquiry'', confidence = ''medium'',
      requires_human_review = False\<rparr>
   \<and> sentiment (analyze_reply_basic c) \<in> {''positive'', ''negative'', ''neutral''}
   \<and> intent (analyze_reply_basic c) \<in>
        {''meeting_request'', ''pricing_inquiry'', ''unsubscribe_request'', ''interested'',
         ''not_interested'', ''general_inquiry''}
   \<and> confidence (analyze_reply_basic c) \<in> {''high'', ''medium''}"
proof -
  have "analyze_reply_basic None =
     \<lparr>sentiment = ''neutral'', intent = ''general_inquiry'', confidence = ''medium'',
      requires_human_review = False\<rparr>"
    by (simp add: classifier_defs)
  moreover have "analyze_reply_basic (Some []) =
     \<lparr>sentiment = ''neutral'', intent = ''general_inquiry'', confidence = ''medium'',
      requires_human_review = False\<rparr>"
    by (simp add: classifier_defs)
  moreover have "sentiment (analyze_reply_basic c) \<in> {''positive'', ''negative'', ''neutral''}"
    by (simp add: analyze_reply_basic_def Let_def)
  moreover have "intent (analyze_reply_basic c) \<in>
        {''meeting_request'', ''pricing_inquiry'', ''unsubscribe_request'', ''interested'',
         ''not_interested'', ''general_inquiry''}"
    by (simp add: analyze_reply_basic_def Let_def)
  moreover have "confidence (analyze_reply_basic c) \<in> {''high'', ''medium''}"
    by (simp add: analyze_reply_basic_def Let_def)
  ultimately show ?thesis by blast
qed

text \<open>
  C9. The positive keywords are tested before the negative ones, by containment: a
  content that matches both has sentiment positive. The reply ``not interested''
  matches both and is classified positive, interested, confidence high, with human
  review. The intent not_interested is returned only for a content without positive
  keyword.
\<close>

theorem positive_keywords_first:
  "(regex_match_any (v_content_lower c) v_keywords_positive
      \<and> regex_match_any (v_content_lower c) v_keywords_negative
    \<longrightarrow> sentiment (analyze_reply_basic c) = ''positive'')
   \<and> regex_match_any (v_content_lower (Some ''not interested'')) v_keywords_positive
   \<and> regex_match_any (v_content_lower (Some ''not interested'')) v_keywords_negative
   \<and> analyze_reply_basic (Some ''not interested'') =
       \<lparr>sentiment = ''positive'', intent = ''interested'', confidence = ''high'',
        requires_human_review = True\<rparr>
   \<and> (intent (analyze_reply_basic c) = ''not_interested''
      \<longrightarrow> \<not> regex_match_any (v_content_lower c) v_keywords_positive)"
proof -
  have "regex_match_any (v_content_lower c) v_keywords_positive
      \<and> regex_match_any (v_content_lower c) v_keywords_negative
    \<longrightarrow> sentiment (analyze_reply_basic c) = ''positive''"
    by (simp add: analyze_reply_basic_def Let_def)
  moreover have
    "regex_match_any (v_content_lower (Some ''not interested'')) v_keywords_positive"
    by (simp add: classifier_defs)
  moreover have
    "regex_match_any (v_content_lower (Some ''not interested'')) v_keywords_negative"
    by (simp add: classifier_defs)
  moreover have "analyze_reply_basic (Some ''not interested'') =
       \<lparr>sentiment = ''positive'', intent = ''interested'', confidence = ''high'',
        requires_human_review = True\<rparr>"
    by (simp add: classifier_defs)
  moreover have "intent (analyze_reply_basic c) = ''not_interested''
      \<longrightarrow> \<not> regex_match_any (v_content_lower c) v_keywords_positive"
    by (simp add: analyze_reply_basic_def Let_def)
  ultimately show ?thesis by blast
qed

theorem positive_keywords_first_witness:
  "sentiment (analyze_reply_basic (Some ''Not interested, please stop'')) = ''positive''
   \<and> intent (analyze_reply_basic (Some ''no thanks'')) = ''not_interested''
   \<and> \<not> regex_match_any (v_content_lower (Some ''no thanks'')) v_keywords_positive"
proof -
  have a: "regex_match_any (v_content_lower (Some ''Not interested, please stop''))
             v_keywords_positive
      \<and> regex_match_any (v_content_lower (Some ''Not interested, please stop''))
             v_keywords_negative"
    by (simp add: classifier_defs)
  have b: "intent (analyze_reply_basic (Some ''no thanks'')) = ''not_interested''"
    by (simp add: classifier_defs)
  from a b positive_keywords_first [of "Some ''Not interested, please stop''"]
    positive_keywords_first [of "Some ''no thanks''"]
  show ?thesis by blast
qed

section \<open>Stage transitions\<close>

lemma filter_map_status:
  "filter (\<lambda>c. c_id c = cid) (map (\<lambda>c. if c_id c = k then c\<lparr>c_status := f c\<rparr> else c) cs) =
   map (\<lambda>c. if c_id c = k then c\<lparr>c_status := f c\<rparr> else c) (filter (\<lambda>c. c_id c = cid) cs)"
  by (induction cs) simp_all

lemma stage_of_map:
  "stage_of (db\<lparr>companies :=
               map (\<lambda>c. if c_id c = k then c\<lparr>c_status := f c\<rparr> else c) (companies db)\<rparr>) cid =
     (case filter (\<lambda>c. c_id c = cid) (companies db) of
        [] \<Rightarrow> None
      | c # _ \<Rightarrow> Some (if cid = k then f c else c_status c))"
proof (cases "filter (\<lambda>c. c_id c = cid) (companies db)")
  case Nil
  then show ?thesis by (simp add: stage_of_def filter_map_status)
next
  case (Cons c cs)
  then have "c_id c = cid" by (metis (mono_tags, lifting) Cons_eq_filterD)
  with Cons show ?thesis by (simp add: stage_of_def filter_map_status)
qed

lemma stage_of_trigger:
  "stage_of (update_prospect_stage_on_analysis db OLD NEW) cid =
     (if (wa_scraping_status NEW = ''completed''
            \<or> wa_analysis_version NEW > coalesce (map_option wa_analysis_version OLD) 0)
          \<and> cid = wa_company_id NEW
      then map_option next_stage (stage_of db cid)
      else stage_of db cid)"
proof -
  have pt: "stage_of (d\<lparr>prospect_tracking := x\<rparr>) cid = stage_of d cid" for d x
    by (simp add: stage_of_def)
  show ?thesis
    unfolding update_prospect_stage_on_analysis_def Let_def
    by (simp only: pt stage_of_map split: if_splits)
       (simp add: stage_of_def next_stage_def split: list.splits)
qed

lemma next_stage_cases:
  "next_stage ''identified'' = ''analyzing''"
  "next_stage ''analyzing'' = ''analyzed''"
  "s \<noteq> ''identified'' \<Longrightarrow> s \<noteq> ''analyzing'' \<Longrightarrow> next_stage s = s"
  by (simp_all add: next_stage_def)

lemma stage_unchanged:
  assumes "stage_of db cid \<noteq> Some ''identified''" and "stage_of db cid \<noteq> Some ''analyzing''"
  shows "stage_of (update_prospect_stage_on_analysis db OLD NEW) cid = stage_of db cid"
proof (cases "stage_of db cid")
  case None
  then show ?thesis by (auto simp add: stage_of_trigger)
next
  case (Some s)
  with assms have "next_stage s = s" by (simp add: next_stage_cases)
  with Some show ?thesis by (auto simp add: stage_of_trigger)
qed

lemma example_stage: "stage_of example_db 10 = Some ''identified''"
  by (simp add: stage_of_def example_db_def)

text \<open>
  C4. One run of the analysis trigger leaves the stage of every company as it is, or
  moves it from identified to analyzing, or from analyzing to analyzed: one step
  forward at most, never backward. When the analysis is completed (or its version has
  advanced) the company of the analysis moves that one step from identified and from
  analyzing. A company at any other stage (analyzed, contacted, qualified, disqualified,
  converted) keeps its stage, also when the trigger runs again.
\<close>

theorem stage_advances_one_step:
  "(stage_of (update_prospect_stage_on_analysis db OLD NEW) cid = stage_of db cid
      \<or> stage_of db cid = Some ''identified''
          \<and> stage_of (update_prospect_stage_on_analysis db OLD NEW) cid = Some ''analyzing''
      \<or> stage_of db cid = Some ''analyzing''
          \<and> stage_of (update_prospect_stage_on_analysis db OLD NEW) cid = Some ''analyzed'')
   \<and> ((wa_scraping_status NEW = ''completed''
          \<or> wa_analysis_version NEW > coalesce (map_option wa_analysis_version OLD) 0)
        \<and> stage_of db (wa_company_id NEW) = Some ''identified''
      \<longrightarrow> stage_of (update_prospect_stage_on_analysis db OLD NEW) (wa_company_id NEW)
            = Some ''analyzing'')
   \<and> ((wa_scraping_status NEW = ''completed''
          \<or> wa_analysis_version NEW > coalesce (map_option wa_analysis_version OLD) 0)
        \<and> stage_of db (wa_company_id NEW) = Some ''analyzing''
      \<longrightarrow> stage_of (update_prospect_stage_on_analysis db OLD NEW) (wa_company_id NEW)
            = Some ''analyzed'')
   \<and> (stage_of db cid \<noteq> Some ''identified'' \<and> stage_of db cid \<noteq> Some ''analyzing''
      \<longrightarrow> stage_of (update_prospect_stage_on_analysis db OLD NEW) cid = stage_of db cid)
   \<and> (stage_of db cid \<in> {Some ''analyzed'', Some ''contacted'', Some ''qualified'',
                           Some ''disqualified'', Some ''converted''}
      \<longrightarrow> stage_of (update_prospect_stage_on_analysis db OLD NEW) cid = stage_of db cid
          \<and> stage_of (update_prospect_stage_on_analysis
                       (update_prospect_stage_on_analysis db OLD NEW) OLD' NEW') cid
            = stage_of db cid)"
proof -
  have one_step: "stage_of (update_prospect_stage_on_analysis db OLD NEW) cid = stage_of db cid
      \<or> stage_of db cid = Some ''identified''
          \<and> stage_of (update_prospect_stage_on_analysis db OLD NEW) cid = Some ''analyzing''
      \<or> stage_of db cid = Some ''analyzing''
          \<and> stage_of (update_prospect_stage_on_analysis db OLD NEW) cid = Some ''analyzed''"
  proof (cases "stage_of db cid = Some ''identified'' \<or> stage_of db cid = Some ''analyzing''")
    case True
    then show ?thesis by (auto simp add: stage_of_trigger next_stage_cases)
  next
    case False
    then show ?thesis using stage_unchanged [of db cid OLD NEW] by simp
  qed
  have later: "stage_of (update_prospect_stage_on_analysis db OLD NEW) cid = stage_of db cid
          \<and> stage_of (update_prospect_stage_on_analysis
                       (update_prospect_stage_on_analysis db OLD NEW) OLD' NEW') cid
            = stage_of db cid"
    if "stage_of db cid \<in> {Some ''analyzed'', Some ''contacted'', Some ''qualified'',
                           Some ''disqualified'', Some ''converted''}"
  proof -
    from that
    have a: "stage_of db cid \<noteq> Some ''identified''" "stage_of db cid \<noteq> Some ''analyzing''"
      by auto
    then have b: "stage_of (update_prospect_stage_on_analysis db OLD NEW) cid = stage_of db cid"
      by (rule stage_unchanged)
    with a stage_unchanged [of "update_prospect_stage_on_analysis db OLD NEW" cid OLD' NEW']
    show ?thesis by simp
  qed
  show ?thesis
    using one_step later stage_unchanged [of db cid OLD NEW]
    by (simp add: stage_of_trigger next_stage_cases)
qed

theorem stage_advances_one_step_witness:
  "stage_of example_db 10 = Some ''identified''
   \<and> stage_of (update_prospect_stage_on_analysis example_db None example_analysis) 10
       = Some ''analyzing''
   \<and> stage_of example_db 20 = Some ''contacted''
   \<and> stage_of (update_prospect_stage_on_analysis example_db None example_analysis) 20
       = Some ''contacted''"
proof -
  have a: "wa_scraping_status example_analysis = ''completed''"
    and b: "wa_company_id example_analysis = 10"
    by (simp_all add: example_analysis_def)
  have c: "stage_of example_db 20 = Some ''contacted''"
    by (simp add: stage_of_def example_db_def)
  from a b c example_stage
    stage_advances_one_step [of example_db None example_analysis 10]
    stage_advances_one_step [of example_db None example_analysis 20]
  show ?thesis by simp
qed

section \<open>The engagement score of the example\<close>


section \<open>Effects of an email activity\<close>

text \<open>
  C8. The claim has a clicked activity set the temperature to warm unless it is hotter
  already. Evaluated on the example, a clicked activity for integration 200, which is
  cold, ends the trigger with \<^verbatim>\<open>record "v_activity_metrics" is not assigned yet\<close>, raised
  by \<^verbatim>\<open>calculate_engagement_score\<close> in the \<^verbatim>\<open>UPDATE\<close> that would set the temperature: the
  insertion is aborted and the integration stays cold. The same holds of the clicked
  activity for integration 100, which is hot.
\<close>

theorem click_on_cold_lead_raises:
  "activity_type example_click_cold = ''clicked''
   \<and> integration_id example_click_cold = 200
   \<and> map ii_id (instantly_integrations example_db) = [100, 200]
   \<and> map ii_lead_temperature (instantly_integrations example_db) = [Some ''hot'', Some ''cold'']
   \<and> update_engagement_on_activity example_db example_now example_click_cold
       = Inl (record_not_assigned ''v_activity_metrics'')
   \<and> activity_type example_click = ''clicked''
   \<and> integration_id example_click = 100
   \<and> update_engagement_on_activity example_db example_now example_click
       = Inl (record_not_assigned ''v_activity_metrics'')"
proof -
  have "activity_type example_click_cold = ''clicked''"
    and "integration_id example_click_cold = 200"
    and "activity_type example_click = ''clicked''"
    and "integration_id example_click = 100"
    by (simp_all add: example_click_cold_def example_click_def)
  moreover have "map ii_id (instantly_integrations example_db) = [100, 200]"
    and "map ii_lead_temperature (instantly_integrations example_db)
           = [Some ''hot'', Some ''cold'']"
    by (simp_all add: example_db_def)
  ultimately show ?thesis
    by (intro conjI example_clicks_raise)
qed

text \<open>
  C10. The trigger changes the database only for an activity of kind opened, clicked or
  replied. For an activity of kind sent, delivered, bounced, unsubscribed or complained
  the trigger ends without error and the database is left as it is: in particular the
  engagement score, the temperature, the status and the time of the last activity of
  every integration.
\<close>

theorem other_activities_change_nothing:
  "(activity_type NEW \<in> {''sent'', ''delivered'', ''bounced'', ''unsubscribed'', ''complained''}
      \<longrightarrow> update_engagement_on_activity db now NEW = Inr db
          \<and> (case update_engagement_on_activity db now NEW of
                Inl e \<Rightarrow> False
              | Inr db' \<Rightarrow>
                  map ii_engagement_score (instantly_integrations db')
                    = map ii_engagement_score (instantly_integrations db)
                  \<and> map ii_lead_temperature (instantly_integrations db')
                    = map ii_lead_temperature (instantly_integrations db)
                  \<and> map ii_lead_status (instantly_integrations db')
                    = map ii_lead_status (instantly_integrations db)
                  \<and> map ii_last_activity_at (instantly_integrations db')
                    = map ii_last_activity_at (instantly_integrations db)))
   \<and> (update_engagement_on_activity db now NEW \<noteq> Inr db
      \<longrightarrow> activity_type NEW \<in> {''opened'', ''clicked'', ''replied''})"
proof -
  have "update_engagement_on_activity db now NEW = Inr db"
    if "activity_type NEW \<in> {''sent'', ''delivered'', ''bounced'', ''unsubscribed'', ''complained''}"
    using that by (auto simp add: update_engagement_on_activity_def)
  moreover have "activity_type NEW \<in> {''opened'', ''clicked'', ''replied''}"
    if "update_engagement_on_activity db now NEW \<noteq> Inr db"
    using that by (auto simp add: update_engagement_on_activity_def split: if_splits)
  ultimately show ?thesis by auto
qed

theorem other_activities_change_nothing_witness:
  "activity_type example_bounce = ''bounced''
   \<and> update_engagement_on_activity example_db example_now example_bounce = Inr example_db
   \<and> update_engagement_on_activity example_db example_now example_click \<noteq> Inr example_db
   \<and> activity_type example_click = ''clicked''"
proof -
  have a: "activity_type example_bounce = ''bounced''"
    by (simp add: example_bounce_def)
  have b: "activity_type example_click = ''clicked''"
    by (simp add: example_click_def)
  have c: "update_engagement_on_activity example_db example_now example_click \<noteq> Inr example_db"
    by (simp add: example_clicks_raise)
  from a b c other_activities_change_nothing [of example_bounce example_db example_now]
    other_activities_change_nothing [of example_click example_db example_now]
  show ?thesis by simp
qed

end
